theory Spec2Isabelle
  imports Main
begin

section \<open>Python values, exceptions and responses\<close>

text \<open>
  A Python \<open>str\<close> is a sequence of Unicode code points, a \<open>bytes\<close> object a sequence
  of octets. String constants of the source that are plain ASCII are written with
  \<open>ascii\<close>; the prompt template, which is Japanese, is given by its code points.
\<close>

type_synonym pystr = "nat list"
type_synonym bytes = "nat list"

definition ascii :: "string \<Rightarrow> pystr" where
  "ascii cs = map of_char cs"

text \<open>
  The values \<open>request.json\<close> and \<open>json.loads\<close> produce. A float is kept as a
  mantissa and a binary exponent (the value \<open>m * 2 ^ e\<close>), an infinity with its sign, or
  NaN; a dict as the list of its items in insertion order.
\<close>

datatype pyfloat = FloatVal int int | FloatInf bool | FloatNaN

datatype pyval =
    PNone
  | PBool bool
  | PInt int
  | PFloat pyfloat
  | PStr pystr
  | PList "pyval list"
  | PDict "(pystr \<times> pyval) list"

text \<open>Truth value testing, as \<open>not image_data_url\<close> applies it.\<close>

fun float_nonzero :: "pyfloat \<Rightarrow> bool" where
  "float_nonzero (FloatVal m e) = (m \<noteq> 0)"
| "float_nonzero (FloatInf s) = True"
| "float_nonzero FloatNaN = True"

fun truthy :: "pyval \<Rightarrow> bool" where
  "truthy PNone = False"
| "truthy (PBool b) = b"
| "truthy (PInt n) = (n \<noteq> 0)"
| "truthy (PFloat f) = float_nonzero f"
| "truthy (PStr s) = (s \<noteq> [])"
| "truthy (PList xs) = (xs \<noteq> [])"
| "truthy (PDict kvs) = (kvs \<noteq> [])"

fun type_name :: "pyval \<Rightarrow> string" where
  "type_name PNone = ''NoneType''"
| "type_name (PBool b) = ''bool''"
| "type_name (PInt n) = ''int''"
| "type_name (PFloat f) = ''float''"
| "type_name (PStr s) = ''str''"
| "type_name (PList xs) = ''list''"
| "type_name (PDict kvs) = ''dict''"

text \<open>
  An exception is its class and the text \<open>str(e)\<close> gives. The classes are the ones the
  handler raises itself or names in an \<open>except\<close> clause; every other subclass of
  \<open>Exception\<close> is \<open>OtherException\<close>.
\<close>

datatype exc_class =
    AttributeError
  | TypeError
  | ValueError
  | UnboundLocalError
  | APIError
  | JSONDecodeError
  | HTTPException
  | OtherException

datatype pyexc = Exc exc_class pystr

fun str_exc :: "pyexc \<Rightarrow> pystr" where
  "str_exc (Exc c msg) = msg"

fun exc_class_of :: "pyexc \<Rightarrow> exc_class" where
  "exc_class_of (Exc c msg) = c"

definition attribute_error :: "pyval \<Rightarrow> string \<Rightarrow> pyexc" where
  "attribute_error v attr =
     Exc AttributeError
       ([39] @ ascii (type_name v) @ [39] @ ascii '' object has no attribute '' @
        [39] @ ascii attr @ [39])"

text \<open>
  What a view function hands back to Flask: a body with a status, or an exception that
  left the function. \<open>jsonify\<close> is applied to a dict in every branch of the handler, so
  a JSON body is kept as the value passed to it.
\<close>

datatype body = JsonBody pyval | HtmlBody pystr

datatype outcome = Response nat body | Unhandled pyexc

text \<open>
  The externally visible actions of a request, in the order they happen: reading
  \<open>request.json\<close>, the library calls, and each line written by \<open>print\<close>.
\<close>

datatype event =
    ReadBody
  | B64Decode pystr
  | ImageOpen bytes
  | GenerateContent pystr pystr
  | JsonLoads pystr
  | RenderTemplate pystr
  | Print pystr

section \<open>The libraries and the process state\<close>

text \<open>
  The libraries the handler calls are parameters: \<open>base64.b64decode\<close>,
  \<open>Image.open(...).convert("RGB")\<close>, \<open>json.loads\<close> and \<open>render_template\<close>, each
  returning a value or raising. The model client is \<open>client.models.generate_content\<close>
  applied to the model name, the prompt and the image: it raises, or returns a response
  whose \<open>text\<close> is a string or \<open>None\<close>.
\<close>

record 'img env =
  b64decode :: "pystr \<Rightarrow> pyexc + bytes"
  image_open_rgb :: "bytes \<Rightarrow> pyexc + 'img"
  json_loads :: "pystr \<Rightarrow> pyexc + pyval"
  render_template :: "pystr \<Rightarrow> pyexc + pystr"

datatype gen_result = GenRaises pyexc | GenReturns "pystr option"

type_synonym 'img genai_client = "pystr \<Rightarrow> pystr \<Rightarrow> 'img \<Rightarrow> gen_result"

text \<open>The module-level names the handlers read: \<open>client\<close> and \<open>MODEL_NAME\<close>.\<close>

record 'img app_state =
  client :: "'img genai_client option"
  MODEL_NAME :: pystr

text \<open>
  Module start-up (lines 18 to 25): \<open>genai.Client()\<close> either raises, and \<open>client\<close> is
  set to \<open>None\<close> after one line is printed, or gives the client.
\<close>

definition startup :: "pyexc + 'img genai_client \<Rightarrow> 'img app_state \<times> event list" where
  "startup init =
     (case init of
        Inl e \<Rightarrow>
          (\<lparr>client = None, MODEL_NAME = ascii ''gemini-2.5-flash''\<rparr>,
           [Print (ascii (''FATAL ERROR: Gemini Client initialization failed. '' @
                          ''Check if GEMINI_API_KEY is set correctly.''))])
      | Inr c \<Rightarrow> (\<lparr>client = Some c, MODEL_NAME = ascii ''gemini-2.5-flash''\<rparr>, []))"

section \<open>String operations of the handler\<close>

text \<open>
  \<open>str.strip()\<close> removes leading and trailing white space; \<open>isspace\<close> lists the code
  points Python treats as white space.
\<close>

definition isspace :: "nat \<Rightarrow> bool" where
  "isspace c =
     ((9 \<le> c \<and> c \<le> 13) \<or> (28 \<le> c \<and> c \<le> 32) \<or> c = 133 \<or> c = 160 \<or> c = 5760 \<or>
      (8192 \<le> c \<and> c \<le> 8202) \<or> c = 8232 \<or> c = 8233 \<or> c = 8239 \<or> c = 8287 \<or>
      c = 12288)"

definition strip :: "pystr \<Rightarrow> pystr" where
  "strip s = rev (dropWhile isspace (rev (dropWhile isspace s)))"

text \<open>\<open>s.split(sep, 1)\<close> for a one-character separator: at most one split, at its first occurrence.\<close>

definition split1 :: "pystr \<Rightarrow> nat \<Rightarrow> pystr list" where
  "split1 s sep =
     (if sep \<in> set s
      then [takeWhile (\<lambda>c. c \<noteq> sep) s, tl (dropWhile (\<lambda>c. c \<noteq> sep) s)]
      else [s])"

text \<open>The attribute accesses of lines 43, 44 and 53 raise \<open>AttributeError\<close> on a value without the method.\<close>

fun py_get :: "pyval \<Rightarrow> pystr \<Rightarrow> pyval \<Rightarrow> pyexc + pyval" where
  "py_get (PDict kvs) k d = Inr (case map_of kvs k of None \<Rightarrow> d | Some v \<Rightarrow> v)"
| "py_get v k d = Inl (attribute_error v ''get'')"

fun py_strip :: "pyval \<Rightarrow> pyexc + pystr" where
  "py_strip (PStr s) = Inr (strip s)"
| "py_strip v = Inl (attribute_error v ''strip'')"

fun py_split_comma :: "pyval \<Rightarrow> pyexc + pystr list" where
  "py_split_comma (PStr s) = Inr (split1 s 44)"
| "py_split_comma v = Inl (attribute_error v ''split'')"

text \<open>The tuple assignment \<open>header, encoded = ...\<close> of line 53.\<close>

fun unpack2 :: "pystr list \<Rightarrow> pyexc + (pystr \<times> pystr)" where
  "unpack2 [header, encoded] = Inr (header, encoded)"
| "unpack2 [] = Inl (Exc ValueError (ascii ''not enough values to unpack (expected 2, got 0)''))"
| "unpack2 [x] = Inl (Exc ValueError (ascii ''not enough values to unpack (expected 2, got 1)''))"
| "unpack2 xs = Inl (Exc ValueError (ascii ''too many values to unpack (expected 2)''))"

section \<open>The prompt\<close>

text \<open>
  The f-string of lines 67 to 83 is the text before \<open>{command}\<close>, the command, and the
  text after it (with \<open>{{\<close> and \<open>}}\<close> read as single braces).
\<close>

definition prompt_prefix :: pystr where
  "prompt_prefix =
   [10, 32, 32, 32, 32, 12354, 12394, 12383, 12399, 30011, 20687, 20869, 12398, 29289, 20307,
    12434, 26908, 20986, 12375, 12289, 12518, 12540, 12470, 12540, 12398, 25351, 31034, 12395,
    22522, 12389, 12356, 12390, 32080, 26524, 12434, 12501, 12451, 12523, 12479, 12522, 12531,
    12464, 12375, 12289, 74, 83, 79, 78, 24418, 24335, 12391, 27491, 30906, 12394, 12496, 12454,
    12531, 12487, 12451, 12531, 12464, 12508, 12483, 12463, 12473, 24231, 27161, 12434, 36820,
    12377, 12456, 12461, 12473, 12497, 12540, 12488, 12391, 12377, 12290, 10, 10, 32, 32, 32,
    32, 12304, 12518, 12540, 12470, 12540, 12398, 25351, 31034, 65288, 26368, 12418, 37325,
    35201, 12394, 26465, 20214, 65289, 12305, 58, 32, 34]"

definition prompt_suffix :: pystr where
  "prompt_suffix =
   [34, 10, 10, 32, 32, 32, 32, 12304, 35201, 20214, 12305, 58, 10, 32, 32, 32, 32, 49, 46, 32,
    32, 30011, 20687, 20869, 12398, 29289, 20307, 12434, 26908, 20986, 12375, 12289, 42, 42,
    12518, 12540, 12470, 12540, 12398, 25351, 31034, 65288, 33394, 12392, 29289, 65289, 12395,
    21512, 33268, 12377, 12427, 12418, 12398, 42, 42, 12398, 12415, 12434, 36984, 12435, 12391,
    12367, 12384, 12373, 12356, 12290, 10, 32, 32, 32, 32, 50, 46, 32, 32, 21508, 12458, 12502,
    12472, 12455, 12463, 12488, 12398, 42, 42, 12496, 12454, 12531, 12487, 12451, 12531, 12464,
    12508, 12483, 12463, 12473, 42, 42, 12399, 12289, 30011, 20687, 12398, 27491, 35215, 21270,
    24231, 27161, 65288, 48, 46, 48, 12363, 12425, 49, 46, 48, 65289, 12392, 12375, 12390, 32,
    96, 91, 120, 95, 109, 105, 110, 44, 32, 121, 95, 109, 105, 110, 44, 32, 120, 95, 109, 97,
    120, 44, 32, 121, 95, 109, 97, 120, 93, 96, 32, 12398, 37197, 21015, 24418, 24335, 12391,
    20986, 21147, 12375, 12390, 12367, 12384, 12373, 12356, 12290, 10, 32, 32, 32, 32, 51, 46,
    32, 32, 26908, 20986, 12373, 12428, 12383, 21508, 12458, 12502, 12472, 12455, 12463, 12488,
    12398, 42, 42, 25903, 37197, 30340, 12394, 33394, 42, 42, 12434, 72, 101, 120, 12467, 12540,
    12489, 65288, 20363, 58, 32, 35, 70, 70, 48, 48, 48, 48, 65289, 12391, 20986, 21147, 12375,
    12390, 12367, 12384, 12373, 12356, 12290, 10, 32, 32, 32, 32, 52, 46, 32, 32, 20986, 21147,
    12399, 24517, 12378, 20197, 19979, 12398, 74, 83, 79, 78, 12473, 12461, 12540, 12510, 12395,
    24467, 12358, 12289, 21336, 19968, 12398, 74, 83, 79, 78, 37197, 21015, 12392, 12375, 12390,
    12367, 12384, 12373, 12356, 12290, 20182, 12398, 12486, 12461, 12473, 12488, 12420, 35500,
    26126, 12399, 19968, 20999, 21547, 12417, 12394, 12356, 12391, 12367, 12384, 12373, 12356,
    12290, 10, 10, 32, 32, 32, 32, 74, 83, 79, 78, 12473, 12461, 12540, 12510, 58, 10, 32, 32,
    32, 32, 91, 10, 32, 32, 32, 32, 32, 32, 123, 34, 98, 111, 120, 34, 58, 32, 91, 48, 46, 49,
    44, 32, 48, 46, 50, 44, 32, 48, 46, 51, 44, 32, 48, 46, 52, 93, 44, 32, 34, 110, 97, 109,
    101, 34, 58, 32, 34, 46, 46, 46, 34, 44, 32, 34, 99, 111, 108, 111, 114, 95, 104, 101, 120,
    34, 58, 32, 34, 35, 82, 82, 71, 71, 66, 66, 34, 125, 44, 10, 32, 32, 32, 32, 32, 32, 46, 46,
    46, 10, 32, 32, 32, 32, 93, 10, 32, 32, 32, 32]"

definition prompt_text :: "pystr \<Rightarrow> pystr" where
  "prompt_text command = prompt_prefix @ command @ prompt_suffix"

section \<open>The handlers\<close>

text \<open>
  A view function is run in the state of the module-level names and may assign them; it
  gives back its outcome, its log and the state it leaves.
\<close>

type_synonym 'img result = "(outcome \<times> event list) \<times> 'img app_state"

definition error_body :: "pystr \<Rightarrow> body" where
  "error_body msg = JsonBody (PDict [(ascii ''error'', PStr msg)])"

definition success_body :: "pyval \<Rightarrow> pystr \<Rightarrow> body" where
  "success_body json_output command =
     JsonBody (PDict [(ascii ''success'', PBool True),
                      (ascii ''detections'', json_output),
                      (ascii ''command'', PStr command)])"

text \<open>How an f-string shows \<open>response.text\<close>.\<close>

fun format_text :: "pystr option \<Rightarrow> pystr" where
  "format_text None = ascii ''None''"
| "format_text (Some t) = t"

text \<open>
  The three \<open>except\<close> clauses of lines 99 to 108, tried in order. \<open>response\<close> is
  \<open>None\<close> while the local variable of that name is still unbound (the call of line 87
  raised), and otherwise holds the text of the response; reading the unbound variable
  in line 105 raises inside the \<open>except\<close> clause, which nothing catches.
\<close>

definition handle_exception ::
  "'img app_state \<Rightarrow> pystr \<Rightarrow> pystr option option \<Rightarrow> pyexc \<Rightarrow> 'img result" where
  "handle_exception st prompt response e =
     (if exc_class_of e = APIError then
        ((Response 500 (error_body (ascii ''Gemini API Error: '' @ str_exc e)),
          [Print (ascii ''Failed prompt (API Error): '' @ take 200 prompt @ ascii ''...'')]),
         st)
      else if exc_class_of e = JSONDecodeError then
        (case response of
           None \<Rightarrow>
             ((Unhandled (Exc UnboundLocalError
                 (ascii (''cannot access local variable '' @ [CHR 0x27] @ ''response'' @
                         [CHR 0x27] @ '' where it is not associated with a value''))),
               [Print (ascii ''JSON Decode Error: '' @ str_exc e)]),
              st)
         | Some text \<Rightarrow>
             ((Response 500
                 (error_body
                    (ascii ''Gemini did not return valid JSON or format was incorrect.'')),
               [Print (ascii ''JSON Decode Error: '' @ str_exc e),
                Print (ascii ''Gemini Raw Output: '' @ format_text text)]),
              st))
      else
        ((Response 500 (error_body (ascii ''An unexpected error occurred: '' @ str_exc e)), []),
         st))"

text \<open>
  Lines 66 to 108: build the prompt, call the model, parse its reply. Line 87 reads the
  module-level \<open>client\<close> again, and line 88 \<open>MODEL_NAME\<close>.
\<close>

definition call_model :: "'img app_state \<Rightarrow> 'img env \<Rightarrow> pystr \<Rightarrow> 'img \<Rightarrow> 'img result" where
  "call_model st env command img_pil =
     (let prompt = prompt_text command
      in case client st of
           None \<Rightarrow> handle_exception st prompt None (attribute_error PNone ''models'')
         | Some cl \<Rightarrow>
             (let called = [GenerateContent (MODEL_NAME st) prompt]
              in case cl (MODEL_NAME st) prompt img_pil of
                   GenRaises e \<Rightarrow>
                     (case handle_exception st prompt None e of
                        ((out, evs), st') \<Rightarrow> ((out, called @ evs), st'))
                 | GenReturns text \<Rightarrow>
                     (case text of
                        None \<Rightarrow>
                          (case handle_exception st prompt (Some text)
                                  (Exc TypeError
                                     (ascii (''the JSON object must be str, bytes or '' @
                                             ''bytearray, not NoneType''))) of
                             ((out, evs), st') \<Rightarrow> ((out, called @ evs), st'))
                      | Some t \<Rightarrow>
                          (case json_loads env t of
                             Inl e \<Rightarrow>
                               (case handle_exception st prompt (Some text) e of
                                  ((out, evs), st') \<Rightarrow>
                                    ((out, called @ [JsonLoads t] @ evs), st'))
                           | Inr json_output \<Rightarrow>
                               ((Response 200 (success_body json_output command),
                                 called @ [JsonLoads t]),
                                st)))))"

text \<open>Lines 50 to 64: decode the data URL and open the image; then the model call.\<close>

definition decode_and_call ::
  "'img app_state \<Rightarrow> 'img env \<Rightarrow> pyval \<Rightarrow> pystr \<Rightarrow> 'img result" where
  "decode_and_call st env image_data_url command =
     (case py_split_comma image_data_url of
        Inl e \<Rightarrow>
          ((Response 500 (error_body (ascii ''Base64 decoding error: '' @ str_exc e)), []), st)
      | Inr parts \<Rightarrow>
          (case unpack2 parts of
             Inl e \<Rightarrow>
               ((Response 500 (error_body (ascii ''Base64 decoding error: '' @ str_exc e)), []),
                st)
           | Inr (header, encoded) \<Rightarrow>
               (case b64decode env encoded of
                  Inl e \<Rightarrow>
                    ((Response 500 (error_body (ascii ''Base64 decoding error: '' @ str_exc e)),
                      [B64Decode encoded]),
                     st)
                | Inr image_bytes \<Rightarrow>
                    (case image_open_rgb env image_bytes of
                       Inl e \<Rightarrow>
                         ((Response 500
                             (error_body (ascii ''Image processing error: '' @ str_exc e)),
                           [B64Decode encoded, ImageOpen image_bytes]),
                          st)
                     | Inr img_pil \<Rightarrow>
                         (case call_model st env command img_pil of
                            ((out, evs), st') \<Rightarrow>
                              ((out, [B64Decode encoded, ImageOpen image_bytes] @ evs),
                               st'))))))"

text \<open>
  The view function of \<open>POST /analyze_frame\<close>. Its argument \<open>request_json\<close> is what
  evaluating \<open>request.json\<close> does for this request: raise, or give the parsed body.
  Lines 42 to 44 are outside every \<open>try\<close>, so what they raise leaves the function.
\<close>

definition analyze_frame :: "'img app_state \<Rightarrow> 'img env \<Rightarrow> pyexc + pyval \<Rightarrow> 'img result" where
  "analyze_frame st env request_json =
     (case client st of
        None \<Rightarrow>
          ((Response 500
              (error_body (ascii ''Gemini API client is not initialized. Check API Key.'')),
            []),
           st)
      | Some cl \<Rightarrow>
          (case request_json of
             Inl e \<Rightarrow> ((Unhandled e, [ReadBody]), st)
           | Inr data \<Rightarrow>
               (case py_get data (ascii ''image'') PNone of
                  Inl e \<Rightarrow> ((Unhandled e, [ReadBody]), st)
                | Inr image_data_url \<Rightarrow>
                    (case py_get data (ascii ''command'') (PStr []) of
                       Inl e \<Rightarrow> ((Unhandled e, [ReadBody]), st)
                     | Inr c \<Rightarrow>
                         (case py_strip c of
                            Inl e \<Rightarrow> ((Unhandled e, [ReadBody]), st)
                          | Inr command \<Rightarrow>
                              if \<not> truthy image_data_url then
                                ((Response 400 (error_body (ascii ''No image data received'')),
                                  [ReadBody]),
                                 st)
                              else
                                (case decode_and_call st env image_data_url command of
                                   ((out, evs), st') \<Rightarrow> ((out, ReadBody # evs), st')))))))"

text \<open>The view function of \<open>GET /\<close>.\<close>

definition index :: "'img app_state \<Rightarrow> 'img env \<Rightarrow> 'img result" where
  "index st env =
     (case render_template env (ascii ''index.html'') of
        Inl e \<Rightarrow> ((Unhandled e, [RenderTemplate (ascii ''index.html'')]), st)
      | Inr html \<Rightarrow>
          ((Response 200 (HtmlBody html), [RenderTemplate (ascii ''index.html'')]), st))"

text \<open>
  One request served by the process: the view function of its route is run in the
  current state, and the state it leaves is the state of the next request.
\<close>

datatype request = GetIndex | PostAnalyzeFrame "pyexc + pyval"

definition serve :: "'img app_state \<Rightarrow> 'img env \<Rightarrow> request \<Rightarrow> 'img result" where
  "serve st env r =
     (case r of
        GetIndex \<Rightarrow> index st env
      | PostAnalyzeFrame request_json \<Rightarrow> analyze_frame st env request_json)"

text \<open>The state after a sequence of requests, each with the library behaviour of its time.\<close>

fun serve_all :: "'img app_state \<Rightarrow> ('img env \<times> request) list \<Rightarrow> 'img app_state" where
  "serve_all st [] = st"
| "serve_all st ((env, r) # rs) = serve_all (snd (serve st env r)) rs"

text \<open>
  The two shapes of JSON body the view function builds, and the outcomes that are a JSON
  answer: 200 with the success body, or 400 or 500 with a body of the one field
  \<open>error\<close>.
\<close>

definition is_error_body :: "body \<Rightarrow> bool" where
  "is_error_body b =
     (case b of
        JsonBody (PDict [(k, PStr msg)]) \<Rightarrow> k = ascii ''error''
      | _ \<Rightarrow> False)"

definition is_success_body :: "body \<Rightarrow> bool" where
  "is_success_body b =
     (case b of
        JsonBody (PDict [(k1, PBool ok), (k2, json_output), (k3, PStr command)]) \<Rightarrow>
          ok \<and> k1 = ascii ''success'' \<and> k2 = ascii ''detections'' \<and> k3 = ascii ''command''
      | _ \<Rightarrow> False)"

fun answered :: "outcome \<Rightarrow> bool" where
  "answered (Response status b) =
     (if status = 200 then is_success_body b
      else (status = 400 \<or> status = 500) \<and> is_error_body b)"
| "answered (Unhandled e) = False"

section \<open>Example requests and library behaviour\<close>

text \<open>
  Concrete inputs on which the theorems below are instantiated. The image is a GIF file
  of one pixel, with its base64 text. \<open>example_env\<close> gives the libraries at the inputs
  used: \<open>b64decode\<close> (which by default drops characters outside the base64 alphabet)
  returns the file for the GIF's text, three zero bytes for \<open>AAAA\<close> and no bytes for
  \<open>!!!!\<close>, and raises "Incorrect padding" for \<open>AAA\<close>; \<open>Image.open\<close> opens the GIF
  and cannot identify the other byte strings (its message names an object address,
  given here by one example); \<open>json.loads\<close> parses the round-trip reply of the
  specification, the object \<open>{"count": 0}\<close> and, as it does by default, \<open>NaN\<close>, and
  rejects the text "I cannot help with that" at its first character. The clients answer
  with a fixed text.
\<close>

definition gif_payload :: pystr where
  "gif_payload = ascii ''R0lGODlhAQABAIAAAAAAAP///yH5BAEAAAAALAAAAAABAAEAAAIBRAA7''"

definition gif_bytes :: bytes where
  "gif_bytes =
     [71, 73, 70, 56, 57, 97, 1, 0, 1, 0, 128, 0, 0, 0, 0, 0, 255, 255, 255, 33, 249, 4, 1, 0,
      0, 0, 0, 44, 0, 0, 0, 0, 1, 0, 1, 0, 0, 2, 1, 68, 0, 59]"

definition example_image :: pystr where
  "example_image = ascii ''data:image/gif;base64'' @ 44 # gif_payload"

definition unidentified_image :: pyexc where
  "unidentified_image =
     Exc OtherException
       (ascii ''cannot identify image file <_io.BytesIO object at 0x7f3a5c1d2e50>'')"

definition example_reply :: pystr where
  \<open>example_reply =
     ascii ''[{"box":[0.1,0.2,0.3,0.4],"name":"red cup","color_hex":"#FF0000"}]''\<close>

definition example_detections :: pyval where
  "example_detections =
     PList [PDict [(ascii ''box'',
                    PList [PFloat (FloatVal 3602879701896397 (- 55)),
                           PFloat (FloatVal 3602879701896397 (- 54)),
                           PFloat (FloatVal 5404319552844595 (- 54)),
                           PFloat (FloatVal 3602879701896397 (- 53))]),
                   (ascii ''name'', PStr (ascii ''red cup'')),
                   (ascii ''color_hex'', PStr (ascii ''#FF0000''))]]"

definition object_reply :: pystr where
  \<open>object_reply = ascii ''{"count": 0}''\<close>

definition example_env :: "unit env" where
  \<open>example_env =
     \<lparr>b64decode = (\<lambda>s. if s = gif_payload then Inr gif_bytes
                         else if s = ascii ''AAAA'' then Inr [0, 0, 0]
                         else if s = ascii ''!!!!'' then Inr []
                         else Inl (Exc ValueError (ascii ''Incorrect padding''))),
      image_open_rgb = (\<lambda>b. if b = gif_bytes then Inr () else Inl unidentified_image),
      json_loads = (\<lambda>t. if t = example_reply then Inr example_detections
                          else if t = object_reply
                               then Inr (PDict [(ascii ''count'', PInt 0)])
                          else if t = ascii ''NaN'' then Inr (PFloat FloatNaN)
                          else Inl (Exc JSONDecodeError
                                      (ascii ''Expecting value: line 1 column 1 (char 0)''))),
      render_template = (\<lambda>name. Inr (ascii ''<!DOCTYPE html>''))\<rparr>\<close>

definition example_client :: "unit genai_client" where
  "example_client = (\<lambda>model prompt img. GenReturns (Some example_reply))"

definition object_client :: "unit genai_client" where
  "object_client = (\<lambda>model prompt img. GenReturns (Some object_reply))"

definition nan_client :: "unit genai_client" where
  "nan_client = (\<lambda>model prompt img. GenReturns (Some (ascii ''NaN'')))"

definition refusing_client :: "unit genai_client" where
  "refusing_client = (\<lambda>model prompt img. GenReturns (Some (ascii ''I cannot help with that'')))"

definition example_state :: "unit app_state" where
  "example_state = fst (startup (Inr example_client))"

definition failed_state :: "unit app_state" where
  "failed_state = fst (startup (Inl (Exc ValueError (ascii ''Missing key inputs argument!''))))"

definition example_body :: pyval where
  "example_body =
     PDict [(ascii ''image'', PStr example_image), (ascii ''command'', PStr (ascii ''red cup''))]"

text \<open>The command \<open>red cup\<close> after a tab and a space, and before an ideographic space and a newline.\<close>

definition padded_command :: pystr where
  "padded_command = [9, 32] @ ascii ''red cup'' @ [12288, 10]"

section \<open>Facts about the stages of the handler\<close>

lemma split1_first: "sep \<notin> set h \<Longrightarrow> split1 (h @ sep # p) sep = [h, p]"
  by (induction h) (auto simp add: split1_def)

lemma split1_absent: "sep \<notin> set s \<Longrightarrow> split1 s sep = [s]"
  by (simp add: split1_def)

lemma py_get_absent: "map_of kvs k = None \<Longrightarrow> py_get (PDict kvs) k d = Inr d"
  by simp

lemma strip_empty: "strip [] = []"
  by (simp add: strip_def)

lemma analyze_frame_uninitialized:
  "client st = None \<Longrightarrow>
   analyze_frame st env rq =
     ((Response 500
         (error_body (ascii ''Gemini API client is not initialized. Check API Key.'')), []),
      st)"
  by (simp add: analyze_frame_def)

lemma analyze_frame_presence:
  assumes "client st = Some cl"
    and "py_get data (ascii ''image'') PNone = Inr v"
    and "py_get data (ascii ''command'') (PStr []) = Inr cmd"
    and "py_strip cmd = Inr command"
  shows "analyze_frame st env (Inr data) =
           (if \<not> truthy v
            then ((Response 400 (error_body (ascii ''No image data received'')), [ReadBody]),
                  st)
            else (case decode_and_call st env v command of
                    ((out, evs), st') \<Rightarrow> ((out, ReadBody # evs), st')))"
  using assms by (simp add: analyze_frame_def)

lemma decode_and_call_data_url:
  assumes "44 \<notin> set header"
  shows "decode_and_call st env (PStr (header @ 44 # encoded)) command =
           (case b64decode env encoded of
              Inl e \<Rightarrow>
                ((Response 500 (error_body (ascii ''Base64 decoding error: '' @ str_exc e)),
                  [B64Decode encoded]),
                 st)
            | Inr image_bytes \<Rightarrow>
                (case image_open_rgb env image_bytes of
                   Inl e \<Rightarrow>
                     ((Response 500
                         (error_body (ascii ''Image processing error: '' @ str_exc e)),
                       [B64Decode encoded, ImageOpen image_bytes]),
                      st)
                 | Inr img_pil \<Rightarrow>
                     (case call_model st env command img_pil of
                        ((out, evs), st') \<Rightarrow>
                          ((out, [B64Decode encoded, ImageOpen image_bytes] @ evs), st'))))"
  using assms by (simp add: decode_and_call_def split1_first)

lemma decode_and_call_no_comma:
  assumes "44 \<notin> set s"
  shows "decode_and_call st env (PStr s) command =
           ((Response 500
               (error_body (ascii ''Base64 decoding error: '' @
                            ascii ''not enough values to unpack (expected 2, got 1)'')), []),
            st)"
  using assms by (simp add: decode_and_call_def split1_absent)

lemma decode_and_call_not_str:
  assumes "\<forall>s. v \<noteq> PStr s"
  shows "decode_and_call st env v command =
           ((Response 500
               (error_body (ascii ''Base64 decoding error: '' @
                            str_exc (attribute_error v ''split''))), []),
            st)"
  using assms by (cases v) (simp_all add: decode_and_call_def)

lemma call_model_parsed:
  assumes "client st = Some cl"
    and "cl (MODEL_NAME st) (prompt_text command) img = GenReturns (Some t)"
    and "json_loads env t = Inr v"
  shows "call_model st env command img =
           ((Response 200 (success_body v command),
             [GenerateContent (MODEL_NAME st) (prompt_text command), JsonLoads t]),
            st)"
  using assms by (simp add: call_model_def)


lemma analyze_frame_model_called:
  assumes "client st = Some cl"
    and "py_get data (ascii ''image'') PNone = Inr (PStr (header @ 44 # encoded))"
    and "44 \<notin> set header"
    and "py_get data (ascii ''command'') (PStr []) = Inr (PStr c)"
    and "b64decode env encoded = Inr image_bytes"
    and "image_open_rgb env image_bytes = Inr img"
  shows "analyze_frame st env (Inr data) =
           (case call_model st env (strip c) img of
              ((out, evs), st') \<Rightarrow>
                ((out, [ReadBody, B64Decode encoded, ImageOpen image_bytes] @ evs), st'))"
  using assms
  by (simp add: analyze_frame_presence [where cmd = "PStr c"] decode_and_call_data_url
        split: prod.splits)

lemmas example_defs =
  example_image_def example_reply_def object_reply_def example_detections_def example_env_def
  example_client_def object_client_def nan_client_def refusing_client_def example_state_def
  failed_state_def example_body_def startup_def ascii_def

section \<open>The success path\<close>

text \<open>
  Claim C1. When the model's reply text parses to an array, the handler answers 200 and
  the \<open>detections\<close> field of the body is that array itself: the same elements in the
  same order, nothing added, dropped or sorted. This holds for every array, so in
  particular for arrays of detection objects. The log of the request shows the stages
  that ran, and the module state is left as it was.
\<close>

theorem analyze_frame_detections_roundtrip:
  assumes "client st = Some cl"
    and "py_get data (ascii ''image'') PNone = Inr (PStr (header @ 44 # encoded))"
    and "44 \<notin> set header"
    and "py_get data (ascii ''command'') (PStr []) = Inr (PStr c)"
    and "b64decode env encoded = Inr image_bytes"
    and "image_open_rgb env image_bytes = Inr img"
    and "cl (MODEL_NAME st) (prompt_text (strip c)) img = GenReturns (Some reply)"
    and "json_loads env reply = Inr (PList ds)"
  shows "analyze_frame st env (Inr data) =
           ((Response 200
               (JsonBody (PDict [(ascii ''success'', PBool True),
                                 (ascii ''detections'', PList ds),
                                 (ascii ''command'', PStr (strip c))])),
             [ReadBody, B64Decode encoded, ImageOpen image_bytes,
              GenerateContent (MODEL_NAME st) (prompt_text (strip c)), JsonLoads reply]),
            st)"
  using assms
  by (simp add: analyze_frame_model_called call_model_parsed success_body_def)

text \<open>
  The round-trip example of the specification: the reply
  \<open>[{"box":[0.1,0.2,0.3,0.4],"name":"red cup","color_hex":"#FF0000"}]\<close> comes back
  as the \<open>detections\<close> of a 200 response.
\<close>

theorem analyze_frame_detections_roundtrip_witness:
  "json_loads example_env example_reply = Inr example_detections \<and>
   fst (fst (analyze_frame example_state example_env (Inr example_body))) =
     Response 200
       (JsonBody (PDict [(ascii ''success'', PBool True),
                         (ascii ''detections'', example_detections),
                         (ascii ''command'', PStr (ascii ''red cup''))]))"
proof -
  have "analyze_frame example_state example_env (Inr example_body) =
          ((Response 200
              (JsonBody (PDict [(ascii ''success'', PBool True),
                                (ascii ''detections'', example_detections),
                                (ascii ''command'', PStr (strip (ascii ''red cup'')))])),
            [ReadBody, B64Decode gif_payload, ImageOpen gif_bytes,
             GenerateContent (MODEL_NAME example_state)
               (prompt_text (strip (ascii ''red cup''))),
             JsonLoads example_reply]),
           example_state)"
    unfolding example_detections_def
    by (rule analyze_frame_detections_roundtrip
          [where cl = example_client and header = "ascii ''data:image/gif;base64''"
             and img = "()"])
       (simp_all add: example_defs)
  then show ?thesis
    by (simp add: example_env_def strip_def isspace_def ascii_def)
qed

text \<open>
  Claim C9. The handler does not look at the shape of what the model's text parses to:
  whatever value \<open>json.loads\<close> returns (an object, a number, a string, a boolean,
  \<open>None\<close>, as well as a list) is, unchanged, the \<open>detections\<close> field of the body of a
  200 response.
\<close>

theorem analyze_frame_relays_any_json:
  assumes "client st = Some cl"
    and "py_get data (ascii ''image'') PNone = Inr (PStr (header @ 44 # encoded))"
    and "44 \<notin> set header"
    and "py_get data (ascii ''command'') (PStr []) = Inr (PStr c)"
    and "b64decode env encoded = Inr image_bytes"
    and "image_open_rgb env image_bytes = Inr img"
    and "cl (MODEL_NAME st) (prompt_text (strip c)) img = GenReturns (Some reply)"
    and "json_loads env reply = Inr json_output"
  shows "fst (fst (analyze_frame st env (Inr data))) =
           Response 200
             (JsonBody (PDict [(ascii ''success'', PBool True),
                               (ascii ''detections'', json_output),
                               (ascii ''command'', PStr (strip c))]))"
  using assms
  by (simp add: analyze_frame_model_called call_model_parsed success_body_def)

text \<open>A reply that is a JSON object, not an array: \<open>{"count": 0}\<close>.\<close>

theorem analyze_frame_relays_any_json_witness:
  "fst (fst (analyze_frame (fst (startup (Inr object_client))) example_env
               (Inr example_body))) =
     Response 200
       (JsonBody (PDict [(ascii ''success'', PBool True),
                         (ascii ''detections'', PDict [(ascii ''count'', PInt 0)]),
                         (ascii ''command'', PStr (ascii ''red cup''))]))"
proof -
  have "fst (fst (analyze_frame (fst (startup (Inr object_client))) example_env
                    (Inr example_body))) =
          Response 200
            (JsonBody (PDict [(ascii ''success'', PBool True),
                              (ascii ''detections'', PDict [(ascii ''count'', PInt 0)]),
                              (ascii ''command'', PStr (strip (ascii ''red cup'')))]))"
    by (rule analyze_frame_relays_any_json
          [where cl = object_client and header = "ascii ''data:image/gif;base64''"
             and encoded = gif_payload and image_bytes = gif_bytes and img = "()"
             and reply = object_reply])
       (simp_all add: example_defs)
  then show ?thesis
    by (simp add: strip_def isspace_def ascii_def)
qed

section \<open>Failures of the model call\<close>




section \<open>The data URL\<close>

text \<open>
  Claim C10. The text of the data URL before its first comma does not reach anything the
  handler does: two request bodies whose \<open>image\<close> strings agree after the first comma,
  and whose \<open>command\<close> entries agree, get the same response and the same log, whatever
  the two headers are.
\<close>

theorem analyze_frame_header_ignored:
  assumes "map_of kvs (ascii ''image'') = Some (PStr (header @ 44 # encoded))"
    and "map_of other_kvs (ascii ''image'') = Some (PStr (other_header @ 44 # encoded))"
    and "44 \<notin> set header"
    and "44 \<notin> set other_header"
    and "map_of kvs (ascii ''command'') = map_of other_kvs (ascii ''command'')"
  shows "analyze_frame st env (Inr (PDict kvs)) = analyze_frame st env (Inr (PDict other_kvs))"
proof (cases "client st")
  case None
  then show ?thesis
    by (simp add: analyze_frame_def)
next
  case (Some cl)
  with assms show ?thesis
    by (simp add: analyze_frame_def decode_and_call_data_url split: sum.splits)
qed

text \<open>The one-pixel GIF sent under the header of a JPEG and with no header at all.\<close>

theorem analyze_frame_header_ignored_witness:
  "analyze_frame example_state example_env
     (Inr (PDict [(ascii ''image'', PStr (ascii ''data:image/jpeg;base64'' @ 44 # gif_payload))])) =
   analyze_frame example_state example_env
     (Inr (PDict [(ascii ''image'', PStr ([] @ 44 # gif_payload))]))"
  by (rule analyze_frame_header_ignored
        [where header = "ascii ''data:image/jpeg;base64''" and other_header = "[]"
           and encoded = gif_payload])
     (simp_all add: ascii_def)

section \<open>The process state\<close>

lemma handle_exception_state: "snd (handle_exception st prompt response e) = st"
  by (simp add: handle_exception_def split: option.splits)

lemma call_model_state: "snd (call_model st env command img) = st"
proof -
  have kept: "snd (case handle_exception st prompt response e of
                     ((out, evs), st') \<Rightarrow> ((out, f evs), st')) = st"
    for prompt response e and f :: "event list \<Rightarrow> event list"
    using handle_exception_state [of st prompt response e]
    by (simp add: case_prod_beta)
  show ?thesis
    by (simp add: call_model_def Let_def kept handle_exception_state
          split: option.splits gen_result.splits sum.splits)
qed

lemma decode_and_call_state: "snd (decode_and_call st env image_data_url command) = st"
  using call_model_state [of st env command]
  by (simp add: decode_and_call_def case_prod_beta split: sum.splits)

lemma analyze_frame_state: "snd (analyze_frame st env request_json) = st"
  using decode_and_call_state [of st env]
  by (simp add: analyze_frame_def case_prod_beta split: option.splits sum.splits)

lemma index_state: "snd (index st env) = st"
  by (simp add: index_def split: sum.splits)

lemma serve_state: "snd (serve st env r) = st"
  by (cases r) (simp_all add: serve_def index_state analyze_frame_state)

lemma serve_all_state: "serve_all st ers = st"
  by (induction ers arbitrary: st) (auto simp add: serve_state)

text \<open>
  Claim C8. Every path through either view function, whether it ends in a response or in
  an exception, leaves the module-level state (the client handle and the model name) as
  it found it; so the state after any sequence of requests is the initial one, and a
  request served after them has the outcome and log it would have had as the first
  request.
\<close>

theorem serve_leaves_state:
  "snd (serve st env r) = st \<and>
   serve_all st ers = st \<and>
   fst (serve (serve_all st ers) env r) = fst (serve st env r)"
  by (simp add: serve_state serve_all_state)

theorem serve_leaves_state_witness:
  "serve_all example_state
     [(example_env, PostAnalyzeFrame (Inr (PList []))),
      (example_env, GetIndex),
      (example_env, PostAnalyzeFrame (Inr example_body))] = example_state"
  using serve_leaves_state
          [of example_state example_env GetIndex
              "[(example_env, PostAnalyzeFrame (Inr (PList []))), (example_env, GetIndex),
                (example_env, PostAnalyzeFrame (Inr example_body))]"]
  by simp

text \<open>
  Claim C3. After a start-up in which creating the client raised, \<open>client\<close> is
  \<open>None\<close>, and every request to \<open>/analyze_frame\<close>, whatever its body (also one that
  \<open>request.json\<close> would reject), and after any number of earlier requests, is answered
  500 with "Gemini API client is not initialized. Check API Key."; the empty log shows
  that the body was not read and nothing was decoded or sent to the model.
\<close>

theorem analyze_frame_client_uninitialized:
  "client (serve_all (fst (startup (Inl e))) ers) = None \<and>
   fst (analyze_frame (serve_all (fst (startup (Inl e))) ers) env request_json) =
     (Response 500
        (JsonBody (PDict [(ascii ''error'',
           PStr (ascii ''Gemini API client is not initialized. Check API Key.''))])), [])"
  by (simp add: serve_all_state analyze_frame_uninitialized startup_def error_body_def)

theorem analyze_frame_client_uninitialized_witness:
  "fst (analyze_frame
          (serve_all failed_state [(example_env, PostAnalyzeFrame (Inr example_body))])
          example_env (Inr example_body)) =
     (Response 500
        (JsonBody (PDict [(ascii ''error'',
           PStr (ascii ''Gemini API client is not initialized. Check API Key.''))])), [])"
  unfolding failed_state_def
  using analyze_frame_client_uninitialized
          [of "Exc ValueError (ascii ''Missing key inputs argument!'')"
              "[(example_env, PostAnalyzeFrame (Inr example_body))]" example_env
              "Inr example_body"]
  by simp

section \<open>The presence check\<close>

text \<open>
  When lines 42 to 44 do not raise (the body is a JSON object whose \<open>command\<close> is absent
  or a string) and the \<open>image\<close> is absent or tests false (the empty string, \<open>null\<close>,
  zero, \<open>false\<close>, an empty list or object), the answer is 400 with exactly
  \<open>{"error": "No image data received"}\<close>, whatever the command says; the log holds only
  the reading of the body, so nothing was decoded and the model was not called.
\<close>

lemma analyze_frame_missing_image:
  assumes "client st = Some cl"
    and "py_get data (ascii ''image'') PNone = Inr image_data_url"
    and "\<not> truthy image_data_url"
    and "py_get data (ascii ''command'') (PStr []) = Inr (PStr c)"
  shows "analyze_frame st env (Inr data) =
           ((Response 400 (JsonBody (PDict [(ascii ''error'',
                                             PStr (ascii ''No image data received''))])),
             [ReadBody]),
            st)"
  using assms
  by (simp add: analyze_frame_presence [where cmd = "PStr c"] error_body_def)

lemma analyze_frame_missing_image_example:
  "analyze_frame example_state example_env
     (Inr (PDict [(ascii ''command'', PStr (ascii ''red cup''))])) =
     ((Response 400 (JsonBody (PDict [(ascii ''error'',
                                       PStr (ascii ''No image data received''))])),
       [ReadBody]),
      example_state)"
  by (rule analyze_frame_missing_image
        [where cl = example_client and image_data_url = PNone and c = "ascii ''red cup''"])
     (simp_all add: example_defs)

text \<open>
  Claim C2 does not hold of the code. The claim is that a body without an image is
  answered 400 with \<open>{"error": "No image data received"}\<close> for any value of
  \<open>command\<close>. For the body \<open>{"command": null}\<close> line 44 calls \<open>strip\<close> on \<open>None\<close>
  before the presence check of line 47 is reached, and the \<open>AttributeError\<close> leaves the
  view function: there is no 400 and no JSON body.
\<close>

theorem analyze_frame_missing_image_null_command:
  "analyze_frame example_state example_env (Inr (PDict [(ascii ''command'', PNone)])) =
     ((Unhandled (Exc AttributeError
         ([39] @ ascii ''NoneType'' @ [39] @ ascii '' object has no attribute '' @
          [39] @ ascii ''strip'' @ [39])), [ReadBody]),
      example_state)"
  by (simp add: analyze_frame_def attribute_error_def example_defs)

section \<open>Exceptions that leave the handler\<close>

text \<open>
  Claim C5 does not hold of the code. Lines 42 to 44 are outside every \<open>try\<close>: for the
  body \<open>{"image": "data:image/jpeg;base64,AAAA", "command": 42}\<close> the call
  \<open>strip\<close> on an \<open>int\<close> raises \<open>AttributeError\<close>, which no \<open>except\<close> clause of
  the view function catches, so no JSON error body is produced by the handler. (A
  non-string \<open>image\<close>, by contrast, fails inside the \<open>try\<close> of line 51 and is
  answered with a JSON error.)
\<close>

theorem analyze_frame_exception_escapes:
  "analyze_frame example_state example_env
     (Inr (PDict [(ascii ''image'', PStr (ascii ''data:image/jpeg;base64,AAAA'')),
                  (ascii ''command'', PInt 42)])) =
     ((Unhandled (Exc AttributeError
         ([39] @ ascii ''int'' @ [39] @ ascii '' object has no attribute '' @
          [39] @ ascii ''strip'' @ [39])), [ReadBody]),
      example_state)"
  by (simp add: analyze_frame_def attribute_error_def example_defs)

lemma is_error_body_error_body: "is_error_body (error_body msg)"
  by (simp add: is_error_body_def error_body_def)

lemma is_success_body_success_body: "is_success_body (success_body json_output command)"
  by (simp add: is_success_body_def success_body_def)

lemma handle_exception_answered:
  assumes "response \<noteq> None \<or> exc_class_of e \<noteq> JSONDecodeError"
  shows "answered (fst (fst (handle_exception st prompt response e)))"
  using assms
  by (auto simp add: handle_exception_def is_error_body_error_body split: option.splits)

lemma call_model_answered:
  assumes "\<And>cl msg. client st = Some cl \<Longrightarrow>
             cl (MODEL_NAME st) (prompt_text command) img \<noteq> GenRaises (Exc JSONDecodeError msg)"
  shows "answered (fst (fst (call_model st env command img)))"
proof (cases "client st")
  case None
  have "answered (fst (fst (handle_exception st (prompt_text command) None
                              (attribute_error PNone ''models''))))"
    by (rule handle_exception_answered) (simp add: attribute_error_def)
  with None show ?thesis
    by (simp add: call_model_def)
next
  case (Some cl)
  show ?thesis
  proof (cases "cl (MODEL_NAME st) (prompt_text command) img")
    case (GenRaises e)
    with assms [OF Some] have "exc_class_of e \<noteq> JSONDecodeError"
      by (cases e) auto
    then have "answered (fst (fst (handle_exception st (prompt_text command) None e)))"
      by (simp add: handle_exception_answered)
    with Some GenRaises show ?thesis
      by (simp add: call_model_def Let_def case_prod_beta)
  next
    case (GenReturns reply)
    show ?thesis
    proof (cases reply)
      case None
      have "answered (fst (fst (handle_exception st (prompt_text command) (Some None)
              (Exc TypeError (ascii (''the JSON object must be str, bytes or '' @
                                     ''bytearray, not NoneType''))))))"
        by (simp add: handle_exception_answered)
      with Some GenReturns None show ?thesis
        by (simp add: call_model_def Let_def case_prod_beta)
    next
      case (Some t)
      note reply = this
      show ?thesis
      proof (cases "json_loads env t")
        case (Inl e)
        have "answered (fst (fst (handle_exception st (prompt_text command)
                                    (Some (Some t)) e)))"
          by (simp add: handle_exception_answered)
        with \<open>client st = Some cl\<close> GenReturns reply Inl show ?thesis
          by (simp add: call_model_def Let_def case_prod_beta)
      next
        case (Inr json_output)
        with \<open>client st = Some cl\<close> GenReturns reply show ?thesis
          by (simp add: call_model_def Let_def is_success_body_success_body)
      qed
    qed
  qed
qed

lemma decode_and_call_answered:
  assumes "\<And>cl img msg. client st = Some cl \<Longrightarrow>
             cl (MODEL_NAME st) (prompt_text command) img \<noteq> GenRaises (Exc JSONDecodeError msg)"
  shows "answered (fst (fst (decode_and_call st env image_data_url command)))"
proof -
  have called: "answered (fst (fst (call_model st env command img)))" for img
    using assms by (rule call_model_answered)
  have failed: "answered (Response 500 (error_body msg))" for msg
    by (simp add: is_error_body_error_body)
  show ?thesis
    using called failed
    by (simp add: decode_and_call_def case_prod_beta split: sum.splits)
qed

text \<open>
  What does hold: when lines 42 to 44 do not raise (the body is a JSON object and its
  \<open>command\<close> is absent or a string) and the client does not itself raise
  \<open>JSONDecodeError\<close>, every outcome is a JSON response: 200 with the success body, or
  400 or 500 with a body of the single field \<open>error\<close>.
\<close>

lemma analyze_frame_wellformed_answered:
  assumes "py_get data (ascii ''image'') PNone = Inr image_data_url"
    and "py_get data (ascii ''command'') (PStr []) = Inr (PStr c)"
    and "\<And>cl img msg. client st = Some cl \<Longrightarrow>
           cl (MODEL_NAME st) (prompt_text (strip c)) img \<noteq> GenRaises (Exc JSONDecodeError msg)"
  shows "answered (fst (fst (analyze_frame st env (Inr data))))"
proof (cases "client st")
  case None
  then show ?thesis
    by (simp add: analyze_frame_uninitialized is_error_body_error_body)
next
  case (Some cl)
  have "answered (fst (fst (decode_and_call st env image_data_url (strip c))))"
    using assms(3) by (rule decode_and_call_answered)
  moreover have "answered (Response 400 (error_body (ascii ''No image data received'')))"
    by (simp add: is_error_body_error_body)
  ultimately show ?thesis
    using assms(1,2) Some
    by (simp add: analyze_frame_presence [where cmd = "PStr c"] case_prod_beta)
qed

lemma call_model_client_raises_json_error:
  assumes "client st = Some cl"
    and "cl (MODEL_NAME st) (prompt_text command) img = GenRaises (Exc JSONDecodeError msg)"
  shows "\<exists>e. fst (fst (call_model st env command img)) = Unhandled e"
  using assms
  by (simp add: call_model_def Let_def handle_exception_def)

section \<open>The echoed command\<close>

lemma handle_exception_not_200:
  "handle_exception st prompt response e = ((out, evs), st') \<Longrightarrow> out \<noteq> Response 200 b"
  by (auto simp add: handle_exception_def split: if_splits option.splits)

lemma call_model_200:
  assumes "call_model st env command img = ((Response 200 b, evs), st')"
  shows "\<exists>json_output. b = success_body json_output command"
  using assms
  by (auto simp add: call_model_def Let_def
           split: gen_result.splits option.splits sum.splits prod.splits
           dest: handle_exception_not_200)

lemma decode_and_call_200:
  assumes "decode_and_call st env image_data_url command = ((Response 200 b, evs), st')"
  shows "\<exists>json_output. b = success_body json_output command"
  using assms
  by (auto simp add: decode_and_call_def split: sum.splits prod.splits dest: call_model_200)

text \<open>
  Claim C6, as the code has it. The body of every 200 response has the three fields
  \<open>success\<close>, \<open>detections\<close> and \<open>command\<close>, and its \<open>command\<close> is the request's
  command after \<open>strip()\<close>, that is without its leading and trailing white space (and
  so the command itself when it has none, the empty string included); when the body has
  no \<open>command\<close> the field is the empty string.
\<close>

theorem analyze_frame_echoes_stripped_command:
  assumes "fst (fst (analyze_frame st env (Inr (PDict kvs)))) = Response 200 b"
  shows "(\<forall>c. map_of kvs (ascii ''command'') = Some (PStr c) \<longrightarrow>
              (\<exists>json_output.
                 b = JsonBody (PDict [(ascii ''success'', PBool True),
                                      (ascii ''detections'', json_output),
                                      (ascii ''command'',
                                       PStr (rev (dropWhile isspace
                                                    (rev (dropWhile isspace c)))))]))) \<and>
         (map_of kvs (ascii ''command'') = None \<longrightarrow>
              (\<exists>json_output.
                 b = JsonBody (PDict [(ascii ''success'', PBool True),
                                      (ascii ''detections'', json_output),
                                      (ascii ''command'', PStr [])])))"
proof -
  obtain out evs st' where run: "analyze_frame st env (Inr (PDict kvs)) = ((out, evs), st')"
    by (metis surj_pair)
  with assms have out: "out = Response 200 b"
    by simp
  from run out show ?thesis
    by (auto simp add: analyze_frame_def strip_empty success_body_def strip_def
             split: option.splits sum.splits if_splits prod.splits
             dest!: decode_and_call_200)
qed

text \<open>
  A request with the one-pixel GIF and the command \<open>red cup\<close> set between a tab and a
  space on the left and an ideographic space and a newline on the right: the response
  carries \<open>red cup\<close>.
\<close>

theorem analyze_frame_echoes_stripped_command_witness:
  "fst (fst (analyze_frame example_state example_env
               (Inr (PDict [(ascii ''image'', PStr example_image),
                            (ascii ''command'', PStr padded_command)])))) =
     Response 200
       (JsonBody (PDict [(ascii ''success'', PBool True),
                         (ascii ''detections'', example_detections),
                         (ascii ''command'', PStr (ascii ''red cup''))])) \<and>
   rev (dropWhile isspace (rev (dropWhile isspace padded_command))) = ascii ''red cup''"
proof -
  have ok: "fst (fst (analyze_frame example_state example_env
                        (Inr (PDict [(ascii ''image'', PStr example_image),
                                     (ascii ''command'', PStr padded_command)])))) =
              Response 200
                (JsonBody (PDict [(ascii ''success'', PBool True),
                                  (ascii ''detections'', example_detections),
                                  (ascii ''command'', PStr (ascii ''red cup''))]))"
    by (simp add: analyze_frame_def decode_and_call_def call_model_def split1_def
          success_body_def strip_def isspace_def padded_command_def example_defs)
  have "map_of [(ascii ''image'', PStr example_image),
                (ascii ''command'', PStr padded_command)] (ascii ''command'') =
          Some (PStr padded_command)"
    by (simp add: ascii_def)
  with analyze_frame_echoes_stripped_command [OF ok]
  have "rev (dropWhile isspace (rev (dropWhile isspace padded_command))) = ascii ''red cup''"
    by simp
  with ok show ?thesis
    by simp
qed

text \<open>
  Claim C6 as written says the command is echoed verbatim. For the one-pixel GIF and
  the command \<open>" red cup "\<close> the response carries \<open>"red cup"\<close>.
\<close>

theorem analyze_frame_command_not_verbatim:
  "analyze_frame example_state example_env
     (Inr (PDict [(ascii ''image'', PStr example_image),
                  (ascii ''command'', PStr (ascii '' red cup ''))])) =
     ((Response 200
         (JsonBody (PDict [(ascii ''success'', PBool True),
                           (ascii ''detections'', example_detections),
                           (ascii ''command'', PStr (ascii ''red cup''))])),
       [ReadBody, B64Decode gif_payload, ImageOpen gif_bytes,
        GenerateContent (ascii ''gemini-2.5-flash'') (prompt_text (ascii ''red cup'')),
        JsonLoads example_reply]),
      example_state) \<and>
   ascii ''red cup'' \<noteq> ascii '' red cup ''"
  by (simp add: analyze_frame_def decode_and_call_def call_model_def split1_def
        success_body_def strip_def isspace_def example_defs)

section \<open>The decode step\<close>

text \<open>
  Claim C7, as the code has it. For a request that reaches the decode step (the client is
  initialised and lines 42 to 48 neither raised nor returned, so \<open>image\<close> tests true):
  an \<open>image\<close> that is not a string with a comma in it is answered 500 with a message
  starting "Base64 decoding error: " before anything is decoded; an \<open>image\<close> string is
  split at its first comma and \<open>b64decode\<close> is applied to the text after it; when
  that raises, the answer is 500 with "Base64 decoding error: " followed by the
  decoder's message, with neither the image opened nor the model called; when it returns
  bytes (as the default decoder also does for payloads that are not base64, whose
  foreign characters it drops), the handler goes on to open those bytes as an image.
\<close>

theorem analyze_frame_decode_error:
  assumes "client st = Some cl"
    and "py_get data (ascii ''image'') PNone = Inr image_data_url"
    and "py_get data (ascii ''command'') (PStr []) = Inr cmd"
    and "py_strip cmd = Inr command"
    and "truthy image_data_url"
  shows "((\<forall>s. image_data_url = PStr s \<longrightarrow> 44 \<notin> set s) \<longrightarrow>
            (\<exists>msg. fst (analyze_frame st env (Inr data)) =
               (Response 500
                  (JsonBody (PDict [(ascii ''error'',
                                     PStr (ascii ''Base64 decoding error: '' @ msg))])),
                [ReadBody]))) \<and>
         (image_data_url = PStr (header @ 44 # encoded) \<and> 44 \<notin> set header \<longrightarrow>
            (case b64decode env encoded of
               Inl e \<Rightarrow>
                 fst (analyze_frame st env (Inr data)) =
                   (Response 500
                      (JsonBody (PDict [(ascii ''error'',
                         PStr (ascii ''Base64 decoding error: '' @ str_exc e))])),
                    [ReadBody, B64Decode encoded])
             | Inr image_bytes \<Rightarrow>
                 take 3 (snd (fst (analyze_frame st env (Inr data)))) =
                   [ReadBody, B64Decode encoded, ImageOpen image_bytes]))"
proof (intro conjI impI)
  assume no_comma: "\<forall>s. image_data_url = PStr s \<longrightarrow> 44 \<notin> set s"
  show "\<exists>msg. fst (analyze_frame st env (Inr data)) =
          (Response 500
             (JsonBody (PDict [(ascii ''error'',
                                PStr (ascii ''Base64 decoding error: '' @ msg))])),
           [ReadBody])"
  proof (cases "\<exists>s. image_data_url = PStr s")
    case True
    then obtain s where s: "image_data_url = PStr s"
      by blast
    with no_comma have "44 \<notin> set s"
      by simp
    with assms s
    have "fst (analyze_frame st env (Inr data)) =
            (Response 500
               (JsonBody (PDict [(ascii ''error'',
                  PStr (ascii ''Base64 decoding error: '' @
                        ascii ''not enough values to unpack (expected 2, got 1)''))])),
             [ReadBody])"
      by (simp add: analyze_frame_presence decode_and_call_no_comma error_body_def)
    then show ?thesis
      by blast
  next
    case False
    with assms
    have "fst (analyze_frame st env (Inr data)) =
            (Response 500
               (JsonBody (PDict [(ascii ''error'',
                  PStr (ascii ''Base64 decoding error: '' @
                        str_exc (attribute_error image_data_url ''split'')))])),
             [ReadBody])"
      by (simp add: analyze_frame_presence decode_and_call_not_str error_body_def)
    then show ?thesis
      by blast
  qed
next
  assume "image_data_url = PStr (header @ 44 # encoded) \<and> 44 \<notin> set header"
  with assms
  show "case b64decode env encoded of
          Inl e \<Rightarrow>
            fst (analyze_frame st env (Inr data)) =
              (Response 500
                 (JsonBody (PDict [(ascii ''error'',
                    PStr (ascii ''Base64 decoding error: '' @ str_exc e))])),
               [ReadBody, B64Decode encoded])
        | Inr image_bytes \<Rightarrow>
            take 3 (snd (fst (analyze_frame st env (Inr data)))) =
              [ReadBody, B64Decode encoded, ImageOpen image_bytes]"
    by (simp add: analyze_frame_presence decode_and_call_data_url error_body_def
          case_prod_beta split: sum.splits)
qed

text \<open>
  Two requests: an image without a comma, and a data URL with the payload \<open>AAA\<close>, which
  \<open>b64decode\<close> rejects for its padding.
\<close>

theorem analyze_frame_decode_error_witness:
  "(\<exists>msg. fst (analyze_frame example_state example_env
                 (Inr (PDict [(ascii ''image'', PStr gif_payload)]))) =
            (Response 500
               (JsonBody (PDict [(ascii ''error'',
                                  PStr (ascii ''Base64 decoding error: '' @ msg))])),
             [ReadBody])) \<and>
   fst (analyze_frame example_state example_env
          (Inr (PDict [(ascii ''image'', PStr (ascii ''data:image/jpeg;base64,AAA''))]))) =
     (Response 500
        (JsonBody (PDict [(ascii ''error'',
                           PStr (ascii ''Base64 decoding error: Incorrect padding''))])),
      [ReadBody, B64Decode (ascii ''AAA'')])"
proof
  show "\<exists>msg. fst (analyze_frame example_state example_env
                     (Inr (PDict [(ascii ''image'', PStr gif_payload)]))) =
            (Response 500
               (JsonBody (PDict [(ascii ''error'',
                                  PStr (ascii ''Base64 decoding error: '' @ msg))])),
             [ReadBody])"
    using analyze_frame_decode_error
            [where st = example_state and cl = example_client and env = example_env
               and data = "PDict [(ascii ''image'', PStr gif_payload)]"
               and image_data_url = "PStr gif_payload" and cmd = "PStr []" and command = "[]"]
    by (simp add: example_state_def example_client_def startup_def gif_payload_def
          strip_def ascii_def)
next
  show "fst (analyze_frame example_state example_env
               (Inr (PDict [(ascii ''image'', PStr (ascii ''data:image/jpeg;base64,AAA''))]))) =
          (Response 500
             (JsonBody (PDict [(ascii ''error'',
                                PStr (ascii ''Base64 decoding error: Incorrect padding''))])),
           [ReadBody, B64Decode (ascii ''AAA'')])"
    using analyze_frame_decode_error
            [where st = example_state and cl = example_client and env = example_env
               and data = "PDict [(ascii ''image'',
                             PStr (ascii ''data:image/jpeg;base64,AAA''))]"
               and image_data_url = "PStr (ascii ''data:image/jpeg;base64,AAA'')"
               and cmd = "PStr []" and command = "[]"
               and header = "ascii ''data:image/jpeg;base64''"
               and encoded = "ascii ''AAA''"]
    by (simp add: example_state_def example_client_def example_env_def startup_def
          gif_payload_def strip_def ascii_def)
qed

text \<open>
  Claim C7 as written covers every \<open>image\<close> value without a comma and every payload that
  is malformed base64. The empty string has no comma, and is answered 400 by the presence
  check of line 47. The payload \<open>!!!!\<close> is not base64, yet \<open>b64decode\<close> drops its
  characters and returns no bytes without raising, so the handler does go on to image
  materialisation and the answer is the error of that step, not a decode error.
\<close>

theorem analyze_frame_decode_claim_fails:
  "analyze_frame example_state example_env
     (Inr (PDict [(ascii ''image'', PStr []), (ascii ''command'', PStr (ascii ''red cup''))])) =
     ((Response 400 (JsonBody (PDict [(ascii ''error'',
                                       PStr (ascii ''No image data received''))])),
       [ReadBody]),
      example_state) \<and>
   analyze_frame example_state example_env
     (Inr (PDict [(ascii ''image'', PStr (ascii ''data:image/jpeg;base64,!!!!'')),
                  (ascii ''command'', PStr (ascii ''red cup''))])) =
     ((Response 500
         (JsonBody (PDict [(ascii ''error'',
            PStr (ascii ''Image processing error: '' @ str_exc unidentified_image))])),
       [ReadBody, B64Decode (ascii ''!!!!''), ImageOpen []]),
      example_state)"
  by (simp add: analyze_frame_def decode_and_call_def split1_def error_body_def
        gif_payload_def gif_bytes_def example_defs)

end
